theory Spec2Isabelle
  imports Main
begin

section \<open>JavaScript values\<close>

text \<open>
  The library is JavaScript, so its functions receive arbitrary values. The value
  universe below covers what the two services can observe: \<open>undefined\<close>, \<open>null\<close>,
  booleans, integer-valued numbers, strings, arrays, plain data objects (own properties
  as an association list, the first binding of a key being the live one), error objects
  (\<open>JError name message props\<close>, with \<open>props\<close> the further own properties such as the
  \<open>code\<close> the AWS SDK attaches) and native functions (only met as the inherited
  members of \<open>Object.prototype\<close>). Non-integral numbers, \<open>NaN\<close>, numbers of 22
  digits or more (which print with an exponent), symbols and objects that override
  \<open>toString\<close> or \<open>valueOf\<close> are outside the universe.
\<close>

datatype jsval =
    JUndefined
  | JNull
  | JBool bool
  | JNum int
  | JStr string
  | JArr "jsval list"
  | JObj "(string \<times> jsval) list"
  | JError string string "(string \<times> jsval) list"
  | JFun string

text \<open>\<open>ToBoolean\<close>: what \<open>if (v)\<close> and \<open>!v\<close> test.\<close>

fun truthy :: "jsval \<Rightarrow> bool" where
  "truthy JUndefined = False"
| "truthy JNull = False"
| "truthy (JBool b) = b"
| "truthy (JNum n) = (n \<noteq> 0)"
| "truthy (JStr s) = (s \<noteq> [])"
| "truthy (JArr xs) = True"
| "truthy (JObj ps) = True"
| "truthy (JError n m ps) = True"
| "truthy (JFun f) = True"

text \<open>Decimal digits of a natural number, for \<open>ToString\<close> of a number.\<close>

fun nat_digits :: "nat \<Rightarrow> string" where
  "nat_digits n =
     (if n < 10 then [''0123456789'' ! n]
      else nat_digits (n div 10) @ [''0123456789'' ! (n mod 10)])"

declare nat_digits.simps [simp del]

fun join_comma :: "string list \<Rightarrow> string" where
  "join_comma [] = []"
| "join_comma [s] = s"
| "join_comma (s # t # ss) = s @ '','' @ join_comma (t # ss)"

text \<open>
  \<open>ToString\<close>, as a template literal \<open>`${v}`\<close> and a computed property key apply it.
  An array joins its elements with commas (\<open>null\<close> and \<open>undefined\<close> elements print
  as nothing), a plain object prints as \<open>[object Object]\<close>, an error as
  \<open>name: message\<close>, a native function as its V8 source text.
\<close>

fun to_string :: "jsval \<Rightarrow> string" where
  "to_string JUndefined = ''undefined''"
| "to_string JNull = ''null''"
| "to_string (JBool b) = (if b then ''true'' else ''false'')"
| "to_string (JNum n) =
     (if n < 0 then ''-'' @ nat_digits (nat (- n)) else nat_digits (nat n))"
| "to_string (JStr s) = s"
| "to_string (JArr xs) =
     join_comma (map (\<lambda>x. if x = JUndefined \<or> x = JNull then [] else to_string x) xs)"
| "to_string (JObj ps) = ''[object Object]''"
| "to_string (JError n m ps) =
     (if n = [] then m else if m = [] then n else n @ '': '' @ m)"
| "to_string (JFun f) = ''function '' @ f @ ''() { [native code] }''"

text \<open>
  Every object inherits the members of \<open>Object.prototype\<close>; a property read that
  finds no own property continues there. The members are native functions, except
  \<open>__proto__\<close>, which reads as the prototype object itself (given here as an object
  without own data properties).
\<close>

definition Object_prototype :: "(string \<times> jsval) list" where
  "Object_prototype =
     [(''constructor'', JFun ''Object''),
      (''__defineGetter__'', JFun ''__defineGetter__''),
      (''__defineSetter__'', JFun ''__defineSetter__''),
      (''hasOwnProperty'', JFun ''hasOwnProperty''),
      (''__lookupGetter__'', JFun ''__lookupGetter__''),
      (''__lookupSetter__'', JFun ''__lookupSetter__''),
      (''isPrototypeOf'', JFun ''isPrototypeOf''),
      (''propertyIsEnumerable'', JFun ''propertyIsEnumerable''),
      (''toString'', JFun ''toString''),
      (''valueOf'', JFun ''valueOf''),
      (''__proto__'', JObj []),
      (''toLocaleString'', JFun ''toLocaleString'')]"

definition object_get :: "(string \<times> jsval) list \<Rightarrow> string \<Rightarrow> jsval" where
  "object_get ps k =
     (case map_of ps k of
        Some v \<Rightarrow> v
      | None \<Rightarrow> (case map_of Object_prototype k of Some v \<Rightarrow> v | None \<Rightarrow> JUndefined))"

definition TypeError :: "string \<Rightarrow> jsval \<Rightarrow> jsval" where
  "TypeError k v =
     JError ''TypeError'' (''Cannot read property '' @ [CHR 0x27] @ k @ [CHR 0x27] @ '' of '' @ to_string v) []"

text \<open>
  The property read \<open>v.k\<close>. Reading from \<open>null\<close> or \<open>undefined\<close> throws a
  \<open>TypeError\<close> (\<open>Inl\<close>); the wording of its message is the engine's. The program
  reads only \<open>ReceiptHandle\<close>, \<open>Messages\<close>, \<open>code\<close> and \<open>Key\<close> from values it did
  not build, names that no built-in prototype defines, so for strings, numbers,
  booleans, arrays and functions only the members inherited from \<open>Object.prototype\<close>
  are given (not \<open>length\<close>, indices or the methods of their own prototypes).
\<close>

fun get_prop :: "jsval \<Rightarrow> string \<Rightarrow> jsval + jsval" where
  "get_prop JUndefined k = Inl (TypeError k JUndefined)"
| "get_prop JNull k = Inl (TypeError k JNull)"
| "get_prop (JObj ps) k = Inr (object_get ps k)"
| "get_prop (JError n m ps) k =
     Inr (if k = ''message'' then JStr m
          else (case map_of ps k of
                  Some v \<Rightarrow> v
                | None \<Rightarrow> if k = ''name'' then JStr n else object_get [] k))"
| "get_prop v k = Inr (object_get [] k)"

text \<open>A promise, once settled: fulfilled with a value or rejected with a reason.\<close>

datatype promise = Resolved jsval | Rejected jsval

section \<open>The collaborators: AWS SDK, uuid, timers, event listeners\<close>

text \<open>
  What the library does to the outside is recorded in the \<open>world\<close>: the clients it
  constructs, every call of a transport operation with the parameters passed, the
  identifiers drawn from \<open>uuid.v1\<close>, the timers installed and cleared, the events
  emitted and the console lines.
\<close>

record world =
  sqs_clients :: "jsval list"
  s3_clients :: "jsval list"
  receive_calls :: "jsval list"
  delete_calls :: "jsval list"
  head_calls :: "jsval list"
  put_calls :: "jsval list"
  uuid_calls :: nat
  timers :: "(int \<times> nat) list"
  cleared :: "nat option list"
  emitters :: nat
  emitted :: "(nat \<times> string \<times> jsval) list"
  console :: "(string \<times> jsval) list"

text \<open>
  How the outside answers is the \<open>env\<close>. A transport operation calls its callback
  once, with \<open>(err, data)\<close>; the answer may depend on how many calls of that operation
  came before and on the parameters (a sinon stub's \<open>onFirstCall\<close>, \<open>onSecondCall\<close>).
  The S3 callbacks of the program look at \<open>err\<close> only. \<open>uuid_v1 n\<close> is the identifier
  drawn by the \<open>n\<close>-th call (from 0). \<open>JSON_stringify\<close> is the platform's, and may
  throw. \<open>emit_throws e name payload\<close> is what \<open>emitter.emit(name, payload)\<close> does on
  emitter \<open>e\<close> with the listeners the caller subscribed: return (\<open>None\<close>) or throw.
\<close>

record env =
  receive_reply :: "nat \<Rightarrow> jsval \<Rightarrow> jsval \<times> jsval"
  delete_reply :: "nat \<Rightarrow> jsval \<Rightarrow> jsval \<times> jsval"
  head_reply :: "nat \<Rightarrow> jsval \<Rightarrow> jsval"
  put_reply :: "nat \<Rightarrow> jsval \<Rightarrow> jsval"
  uuid_v1 :: "nat \<Rightarrow> string"
  JSON_stringify :: "jsval \<Rightarrow> jsval + jsval"
  emit_throws :: "nat \<Rightarrow> string \<Rightarrow> jsval \<Rightarrow> jsval option"

section \<open>QueueService\<close>

definition ENVIRONMENT_MAP :: "(string \<times> jsval) list" where
  "ENVIRONMENT_MAP = [(''kaos'', JStr ''384553929753''), (''prod'', JStr ''966972755541'')]"

record queue_service =
  url :: string
  poll :: "nat option"
  sqs :: jsval

definition mandatory_error :: jsval where
  "mandatory_error =
     JError ''Error''
       ''All parameters are mandatory, please provide an appName, slice, environment and queueName''
       []"

definition regional_host :: string where
  "regional_host = ''https://sqs.ap-southeast-2.amazonaws.com''"

text \<open>
  \<open>new QueueService(appName, slice, environment, queueName)\<close>. A \<open>throw\<close> is \<open>Inl\<close>.
  \<open>ENVIRONMENT_MAP[environment]\<close> is a property read on an object literal, so it sees
  the inherited members too.
\<close>

definition QueueService_constructor ::
  "jsval \<Rightarrow> jsval \<Rightarrow> jsval \<Rightarrow> jsval \<Rightarrow> world \<Rightarrow> (jsval + queue_service) \<times> world" where
  "QueueService_constructor appName slice environment queueName w =
     (if \<not> truthy appName \<or> \<not> truthy slice \<or> \<not> truthy environment \<or> \<not> truthy queueName
      then (Inl mandatory_error, w)
      else
        let uri = to_string appName @ ''-'' @ to_string slice @ ''-'' @ to_string queueName;
            account = object_get ENVIRONMENT_MAP (to_string environment);
            account = (if \<not> truthy account then object_get ENVIRONMENT_MAP ''kaos'' else account);
            url = regional_host @ ''/'' @ to_string account @ ''/'' @ uri;
            options = JObj [(''region'', JStr ''ap-southeast-2''),
                            (''apiVersion'', JStr ''2012-11-05''),
                            (''params'', JObj [(''QueueUrl'', JStr url)])]
        in (Inr \<lparr>url = url, poll = None, sqs = options\<rparr>,
            w\<lparr>sqs_clients := sqs_clients w @ [options]\<rparr>))"

text \<open>What the claims call a missing identifier: empty, \<open>null\<close> or \<open>undefined\<close>.\<close>

definition missing :: "jsval \<Rightarrow> bool" where
  "missing v = (v = JStr [] \<or> v = JNull \<or> v = JUndefined)"

text \<open>The endpoint the documentation promises: host, account, queue name.\<close>

definition endpoint :: "string \<Rightarrow> string \<Rightarrow> string \<Rightarrow> string \<Rightarrow> string" where
  "endpoint account appName slice queueName =
     regional_host @ ''/'' @ account @ ''/'' @ appName @ ''-'' @ slice @ ''-'' @ queueName"

definition account_id :: "string \<Rightarrow> string" where
  "account_id environment = (if environment = ''prod'' then ''966972755541'' else ''384553929753'')"


definition wrapped :: "jsval \<Rightarrow> jsval" where
  "wrapped err = JStr (''An error occurred: '' @ to_string err)"

definition no_receipt_handle :: jsval where
  "no_receipt_handle = JStr ''message input did not contain a receipt handle''"

text \<open>
  \<open>receiveMessage(maxNumberOfMessages = 1)\<close>: the default applies when the argument
  is \<open>undefined\<close>. One call of the transport; the promise settles from its callback.
\<close>

definition receive_params :: "jsval \<Rightarrow> jsval" where
  "receive_params maxNumberOfMessages =
     JObj [(''MaxNumberOfMessages'', maxNumberOfMessages),
           (''AttributeNames'', JArr [JStr ''All'']),
           (''WaitTimeSeconds'', JNum 10)]"

definition receiveMessage :: "env \<Rightarrow> jsval \<Rightarrow> world \<Rightarrow> promise \<times> world" where
  "receiveMessage E maxNumberOfMessages w =
     (let maxNumberOfMessages =
            (if maxNumberOfMessages = JUndefined then JNum 1 else maxNumberOfMessages);
          params = receive_params maxNumberOfMessages;
          (err, data) = receive_reply E (length (receive_calls w)) params;
          w' = w\<lparr>receive_calls := receive_calls w @ [params]\<rparr>
      in if truthy err then (Rejected (wrapped err), w') else (Resolved data, w'))"

text \<open>
  \<open>deleteMessage(message)\<close>. The body runs inside the promise executor, so the
  \<open>TypeError\<close> of reading \<open>message.ReceiptHandle\<close> from \<open>null\<close> or \<open>undefined\<close>
  rejects the promise with that error.
\<close>

definition deleteMessage :: "env \<Rightarrow> jsval \<Rightarrow> world \<Rightarrow> promise \<times> world" where
  "deleteMessage E message w =
     (case get_prop message ''ReceiptHandle'' of
        Inl exc \<Rightarrow> (Rejected exc, w)
      | Inr handle \<Rightarrow>
          if \<not> truthy handle then (Rejected no_receipt_handle, w)
          else
            let deleteParams = JObj [(''ReceiptHandle'', handle)];
                (err, data) = delete_reply E (length (delete_calls w)) deleteParams;
                w' = w\<lparr>delete_calls := delete_calls w @ [deleteParams]\<rparr>
            in if truthy err then (Rejected (wrapped err), w') else (Resolved data, w'))"

text \<open>\<open>dequeue()\<close>: an \<open>await\<close> that rejects ends the function with that rejection.\<close>

definition dequeue :: "env \<Rightarrow> world \<Rightarrow> promise \<times> world" where
  "dequeue E w =
     (case receiveMessage E JUndefined w of
        (Rejected err, w1) \<Rightarrow> (Rejected err, w1)
      | (Resolved data, w1) \<Rightarrow>
          (case deleteMessage E data w1 of
             (Rejected err, w2) \<Rightarrow> (Rejected err, w2)
           | (Resolved ack, w2) \<Rightarrow> (Resolved data, w2)))"

text \<open>
  \<open>startPolling(intervalSeconds)\<close>, for an integer argument. A timer is the delay in
  milliseconds passed to \<open>setInterval\<close> with the emitter its callback closes over; the
  handle is the timer's position in \<open>timers\<close>. The new handle overwrites \<open>this.poll\<close>.
\<close>

definition startPolling :: "queue_service \<Rightarrow> int \<Rightarrow> world \<Rightarrow> nat \<times> queue_service \<times> world" where
  "startPolling this intervalSeconds w =
     (let seconds = max intervalSeconds 20;
          interval = seconds * 1000;
          emitter = emitters w;
          handle = length (timers w)
      in (emitter, this\<lparr>poll := Some handle\<rparr>,
          w\<lparr>emitters := Suc (emitters w), timers := timers w @ [(interval, emitter)]\<rparr>))"

definition stopPolling :: "queue_service \<Rightarrow> world \<Rightarrow> world" where
  "stopPolling this w = w\<lparr>cleared := cleared w @ [poll this]\<rparr>"

definition emit :: "env \<Rightarrow> nat \<Rightarrow> string \<Rightarrow> jsval \<Rightarrow> world \<Rightarrow> jsval option \<times> world" where
  "emit E emitter name payload w =
     (emit_throws E emitter name payload,
      w\<lparr>emitted := emitted w @ [(emitter, name, payload)]\<rparr>)"

text \<open>
  The \<open>.catch\<close> handler of a tick. If \<open>emit\<close> throws there, the chain ends rejected
  (an unhandled rejection), which is not an exception of the timer callback.
\<close>

definition on_rejected :: "env \<Rightarrow> nat \<Rightarrow> jsval \<Rightarrow> world \<Rightarrow> promise \<times> world" where
  "on_rejected E emitter err w =
     (case emit E emitter ''error'' err w of
        (None, w') \<Rightarrow> (Resolved JUndefined, w')
      | (Some exc, w') \<Rightarrow> (Rejected exc, w'))"

text \<open>
  One run of the timer callback of \<open>startPolling\<close>, with the emitter it closes over.
  The callback is the single expression \<open>this.receiveMessage(10).then(..).catch(..)\<close>;
  the result is how that chain settles. Whatever is thrown inside the \<open>.then\<close> handler
  (by reading \<open>messages.Messages\<close>, or by a listener of \<open>message\<close>) reaches the
  \<open>.catch\<close> handler.
\<close>

definition poll_tick :: "env \<Rightarrow> nat \<Rightarrow> world \<Rightarrow> promise \<times> world" where
  "poll_tick E emitter w =
     (case receiveMessage E (JNum 10) w of
        (Rejected err, w1) \<Rightarrow> on_rejected E emitter err w1
      | (Resolved messages, w1) \<Rightarrow>
          (case get_prop messages ''Messages'' of
             Inl exc \<Rightarrow> on_rejected E emitter exc w1
           | Inr ms \<Rightarrow>
               if truthy ms then
                 (case emit E emitter ''message'' messages w1 of
                    (None, w2) \<Rightarrow> (Resolved JUndefined, w2)
                  | (Some exc, w2) \<Rightarrow> on_rejected E emitter exc w2)
               else (Resolved JUndefined, w1)))"

section \<open>StorageService\<close>

record storage_service =
  aws :: jsval

definition StorageService_constructor :: "jsval \<Rightarrow> world \<Rightarrow> storage_service \<times> world" where
  "StorageService_constructor bucketName w =
     (let options = JObj [(''params'', JObj [(''Bucket'', bucketName)]),
                          (''signatureVersion'', JStr ''v4''),
                          (''region'', JStr ''ap-southeast-2'')]
      in (\<lparr>aws = options\<rparr>, w\<lparr>s3_clients := s3_clients w @ [options]\<rparr>))"

text \<open>
  \<open>getUniqueKey(prefix)\<close>. \<open>prefix + uuid.v1()\<close> concatenates strings, the identifier
  being one. The recursion has no bound: \<open>None\<close> is the promise that never settles.
  \<open>err\<close> is truthy where \<open>err.code\<close> is read, so that read does not throw.
\<close>

definition key_params :: "string \<Rightarrow> jsval" where
  "key_params key = JObj [(''Key'', JStr key)]"

partial_function (option) getUniqueKey ::
  "env \<Rightarrow> jsval \<Rightarrow> world \<Rightarrow> (promise \<times> world) option" where
  "getUniqueKey E prefix w =
     (let key = to_string prefix @ uuid_v1 E (uuid_calls w);
          w1 = w\<lparr>uuid_calls := Suc (uuid_calls w)\<rparr>;
          params = key_params key;
          err = head_reply E (length (head_calls w1)) params;
          w2 = w1\<lparr>head_calls := head_calls w1 @ [params]\<rparr>
      in if truthy err then
           (if get_prop err ''code'' = Inr (JStr ''NotFound'')
            then Some (Resolved (JStr key), w2)
            else Some (Rejected err, w2))
         else getUniqueKey E prefix w2)"

text \<open>
  \<open>putObjectPromise(data)\<close>. The callback reads \<open>data.Key\<close>; were \<open>data\<close> \<open>null\<close>
  or \<open>undefined\<close>, the read would throw inside the transport's callback and the promise
  would never settle (\<open>None\<close>).
\<close>

definition putObjectPromise :: "env \<Rightarrow> jsval \<Rightarrow> world \<Rightarrow> (promise \<times> world) option" where
  "putObjectPromise E data w =
     (let err = put_reply E (length (put_calls w)) data;
          w' = w\<lparr>put_calls := put_calls w @ [data]\<rparr>
      in if truthy err then Some (Rejected err, w')
         else (case get_prop data ''Key'' of
                 Inl exc \<Rightarrow> None
               | Inr k \<Rightarrow> Some (Resolved k, w')))"

definition console_log :: "jsval \<Rightarrow> world \<Rightarrow> world" where
  "console_log err w =
     w\<lparr>console := console w @ [(''An error was thrown putting object on S3'', err)]\<rparr>"

text \<open>
  \<open>putAttachment(prefix, attachments)\<close>: everything thrown or rejected inside the
  \<open>try\<close> block is logged and thrown again.
\<close>

definition putAttachment :: "env \<Rightarrow> jsval \<Rightarrow> jsval \<Rightarrow> world \<Rightarrow> (promise \<times> world) option" where
  "putAttachment E prefix attachments w =
     (case getUniqueKey E prefix w of
        None \<Rightarrow> None
      | Some (Rejected err, w1) \<Rightarrow> Some (Rejected err, console_log err w1)
      | Some (Resolved key, w1) \<Rightarrow>
          (case JSON_stringify E attachments of
             Inl exc \<Rightarrow> Some (Rejected exc, console_log exc w1)
           | Inr body \<Rightarrow>
               (case putObjectPromise E (JObj [(''Key'', key), (''Body'', body)]) w1 of
                  None \<Rightarrow> None
                | Some (Rejected err, w2) \<Rightarrow> Some (Rejected err, console_log err w2)
                | Some (Resolved k, w2) \<Rightarrow> Some (Resolved k, w2))))"

section \<open>Provider\<close>

record provider =
  storageService :: storage_service
  queueService :: queue_service

text \<open>
  The names the module of \<open>Provider\<close> binds: its single import and its own class.
  The queue client's class is not among them.
\<close>

definition Provider_module_scope :: "string list" where
  "Provider_module_scope = [''StorageService'', ''Provider'']"

text \<open>Evaluating an identifier that the scope does not bind throws a \<open>ReferenceError\<close>.\<close>

definition unbound :: "string list \<Rightarrow> string \<Rightarrow> jsval option" where
  "unbound scope name =
     (if name \<in> set scope then None
      else Some (JError ''ReferenceError'' (name @ '' is not defined'') []))"

text \<open>
  \<open>new Provider(bucketName)\<close>: the two assignments in order. Each \<open>new C(..)\<close>
  first evaluates the identifier \<open>C\<close> in the module's scope; \<open>new QueueService()\<close>
  passes no arguments, so all four parameters would be \<open>undefined\<close>.
\<close>

definition Provider_constructor :: "jsval \<Rightarrow> world \<Rightarrow> (jsval + provider) \<times> world" where
  "Provider_constructor bucketName w =
     (case unbound Provider_module_scope ''StorageService'' of
        Some exc \<Rightarrow> (Inl exc, w)
      | None \<Rightarrow>
          let (storage, w1) = StorageService_constructor bucketName w
          in (case unbound Provider_module_scope ''QueueService'' of
                Some exc \<Rightarrow> (Inl exc, w1)
              | None \<Rightarrow>
                  (case QueueService_constructor JUndefined JUndefined JUndefined JUndefined w1 of
                     (Inl exc, w2) \<Rightarrow> (Inl exc, w2)
                   | (Inr queue, w2) \<Rightarrow>
                       (Inr \<lparr>storageService = storage, queueService = queue\<rparr>, w2))))"

section \<open>Vocabulary of the claims\<close>

text \<open>
  A message lacks a receipt token when reading \<open>ReceiptHandle\<close> from it gives
  nothing truthy; \<open>null\<close> and \<open>undefined\<close>, from which nothing can be read, lack it
  too.
\<close>

definition lacks_receipt_token :: "jsval \<Rightarrow> bool" where
  "lacks_receipt_token message =
     (case get_prop message ''ReceiptHandle'' of Inl exc \<Rightarrow> True | Inr handle \<Rightarrow> \<not> truthy handle)"

text \<open>
  The three answers of an existence probe, as \<open>getUniqueKey\<close> tells them apart from
  the \<open>err\<close> of the callback.
\<close>

definition found :: "jsval \<Rightarrow> bool" where
  "found err = (\<not> truthy err)"

definition notFound :: "jsval \<Rightarrow> bool" where
  "notFound err = (truthy err \<and> get_prop err ''code'' = Inr (JStr ''NotFound''))"

definition other_error :: "jsval \<Rightarrow> bool" where
  "other_error err = (truthy err \<and> get_prop err ''code'' \<noteq> Inr (JStr ''NotFound''))"

text \<open>The candidate key built from the \<open>n\<close>-th identifier.\<close>

definition candidate :: "env \<Rightarrow> jsval \<Rightarrow> nat \<Rightarrow> string" where
  "candidate E prefix n = to_string prefix @ uuid_v1 E n"

text \<open>The world after one more probe, of the candidate \<open>key\<close>.\<close>

definition probed :: "world \<Rightarrow> string \<Rightarrow> world" where
  "probed w key =
     w\<lparr>uuid_calls := Suc (uuid_calls w), head_calls := head_calls w @ [key_params key]\<rparr>"

text \<open>The events a step added to the log, and those of one name among them.\<close>

definition new_events :: "world \<Rightarrow> world \<Rightarrow> (nat \<times> string \<times> jsval) list" where
  "new_events w w' = drop (length (emitted w)) (emitted w')"

definition named :: "string \<Rightarrow> (nat \<times> string \<times> jsval) list \<Rightarrow> (nat \<times> string \<times> jsval) list" where
  "named name evs = filter (\<lambda>ev. fst (snd ev) = name) evs"

section \<open>Fixtures\<close>

definition fresh_world :: world where
  "fresh_world =
     \<lparr>sqs_clients = [], s3_clients = [], receive_calls = [], delete_calls = [],
      head_calls = [], put_calls = [], uuid_calls = 0, timers = [], cleared = [],
      emitters = 0, emitted = [], console = []\<rparr>"

text \<open>
  A scripted environment, in the manner of the stubs of the test suite: each transport
  operation answers its \<open>n\<close>-th call with the \<open>n\<close>-th entry of its script (and with the
  default once the script is used up). It serialises the empty array only, no listener
  throws, and \<open>error\<close> has a listener.
\<close>

definition script :: "'a list \<Rightarrow> 'a \<Rightarrow> nat \<Rightarrow> 'a" where
  "script xs d n = (if n < length xs then xs ! n else d)"

definition scripted ::
  "(jsval \<times> jsval) list \<Rightarrow> (jsval \<times> jsval) list \<Rightarrow> jsval list \<Rightarrow> jsval list \<Rightarrow> string list \<Rightarrow> env" where
  "scripted receives deletes heads puts uuids =
     \<lparr>receive_reply = (\<lambda>n p. script receives (JNull, JObj []) n),
      delete_reply = (\<lambda>n p. script deletes (JNull, JObj []) n),
      head_reply = (\<lambda>n p. script heads (JObj [(''code'', JStr ''NotFound'')]) n),
      put_reply = (\<lambda>n p. script puts JNull n),
      uuid_v1 = (\<lambda>n. script uuids ''some-guid'' n),
      JSON_stringify = (\<lambda>v. if v = JArr [] then Inr (JStr ''[]'') else Inl (JError ''Error'' ''not scripted'' [])),
      emit_throws = (\<lambda>e name payload. None)\<rparr>"

section \<open>Helper lemmas\<close>

lemma missing_falsy: "missing v \<Longrightarrow> \<not> truthy v"
  by (auto simp: missing_def)

lemma wrapped_shape: "no_receipt_handle \<noteq> wrapped err"
  by (simp add: no_receipt_handle_def wrapped_def)

lemma get_prop_defined:
  assumes "v \<noteq> JNull" and "v \<noteq> JUndefined"
  shows "\<exists>x. get_prop v k = Inr x"
  using assms by (cases v) simp_all

lemma lacks_receipt_token_defined:
  assumes "message \<noteq> JNull" and "message \<noteq> JUndefined" and "lacks_receipt_token message"
  shows "\<exists>handle. get_prop message ''ReceiptHandle'' = Inr handle \<and> \<not> truthy handle"
proof -
  from get_prop_defined [OF assms(1,2)]
  obtain x where "get_prop message ''ReceiptHandle'' = Inr x"
    by blast
  with assms(3) show ?thesis
    by (simp add: lacks_receipt_token_def)
qed

lemma deleteMessage_falsy_handle:
  assumes "get_prop message ''ReceiptHandle'' = Inr handle" and "\<not> truthy handle"
  shows "deleteMessage E message w = (Rejected no_receipt_handle, w)"
  using assms by (simp add: deleteMessage_def)

lemma deleteMessage_truthy_handle:
  assumes "get_prop message ''ReceiptHandle'' = Inr handle" and "truthy handle"
    and "delete_reply E (length (delete_calls w)) (JObj [(''ReceiptHandle'', handle)]) = (err, data)"
  shows "deleteMessage E message w =
           ((if truthy err then Rejected (wrapped err) else Resolved data),
            w\<lparr>delete_calls := delete_calls w @ [JObj [(''ReceiptHandle'', handle)]]\<rparr>)"
  using assms by (simp add: deleteMessage_def Let_def)

lemma receiveMessage_reply:
  assumes "receive_reply E (length (receive_calls w))
             (receive_params (if n = JUndefined then JNum 1 else n)) = (err, data)"
  shows "receiveMessage E n w =
           ((if truthy err then Rejected (wrapped err) else Resolved data),
            w\<lparr>receive_calls := receive_calls w
                 @ [receive_params (if n = JUndefined then JNum 1 else n)]\<rparr>)"
  using assms by (simp add: receiveMessage_def Let_def)

lemma emit_emitted:
  "emit E em name payload w =
     (emit_throws E em name payload, w\<lparr>emitted := emitted w @ [(em, name, payload)]\<rparr>)"
  by (simp add: emit_def)

lemma on_rejected_events:
  "on_rejected E em exc w =
     ((case emit_throws E em ''error'' exc of None \<Rightarrow> Resolved JUndefined | Some x \<Rightarrow> Rejected x),
      w\<lparr>emitted := emitted w @ [(em, ''error'', exc)]\<rparr>)"
  by (simp add: on_rejected_def emit_def split: option.split)

lemma new_events_append [simp]:
  "emitted w' = emitted w @ evs \<Longrightarrow> new_events w w' = evs"
  by (simp add: new_events_def)

lemma probed_fields [simp]:
  "uuid_calls (probed w key) = Suc (uuid_calls w)"
  "head_calls (probed w key) = head_calls w @ [key_params key]"
  "put_calls (probed w key) = put_calls w"
  by (simp_all add: probed_def)

text \<open>One probe of \<open>getUniqueKey\<close>, by the answer it gets.\<close>

lemma getUniqueKey_found:
  assumes "found (head_reply E (length (head_calls w)) (key_params (candidate E prefix (uuid_calls w))))"
  shows "getUniqueKey E prefix w = getUniqueKey E prefix (probed w (candidate E prefix (uuid_calls w)))"
  using assms
  by (subst getUniqueKey.simps) (simp add: found_def candidate_def probed_def Let_def)

lemma getUniqueKey_notFound:
  assumes "notFound (head_reply E (length (head_calls w)) (key_params (candidate E prefix (uuid_calls w))))"
  shows "getUniqueKey E prefix w =
           Some (Resolved (JStr (candidate E prefix (uuid_calls w))),
                 probed w (candidate E prefix (uuid_calls w)))"
  using assms
  by (subst getUniqueKey.simps) (simp add: notFound_def candidate_def probed_def Let_def)

lemma getUniqueKey_other_error:
  assumes "other_error (head_reply E (length (head_calls w)) (key_params (candidate E prefix (uuid_calls w))))"
  shows "getUniqueKey E prefix w =
           Some (Rejected (head_reply E (length (head_calls w)) (key_params (candidate E prefix (uuid_calls w)))),
                 probed w (candidate E prefix (uuid_calls w)))"
  using assms
  by (subst getUniqueKey.simps) (simp add: other_error_def candidate_def probed_def Let_def)

text \<open>
  Whenever \<open>getUniqueKey\<close> settles, it has written nothing, and what it resolves with
  is a string. By induction on the unfolding of the recursion.
\<close>

lemma getUniqueKey_result:
  "getUniqueKey E prefix w = Some y \<Longrightarrow>
     put_calls (snd y) = put_calls w \<and> (\<forall>v. fst y = Resolved v \<longrightarrow> (\<exists>key. v = JStr key))"
proof (induct rule: getUniqueKey.raw_induct [rotated 1, consumes 1, case_names step])
  case (step getUniqueKey E prefix w y)
  then show ?case
    by (auto simp: Let_def split: if_splits)
qed

lemma putObjectPromise_reply:
  "putObjectPromise E (JObj [(''Key'', key), (''Body'', body)]) w =
     Some ((if truthy (put_reply E (length (put_calls w)) (JObj [(''Key'', key), (''Body'', body)]))
            then Rejected (put_reply E (length (put_calls w)) (JObj [(''Key'', key), (''Body'', body)]))
            else Resolved key),
           w\<lparr>put_calls := put_calls w @ [JObj [(''Key'', key), (''Body'', body)]]\<rparr>)"
  by (simp add: putObjectPromise_def Let_def object_get_def)

section \<open>The queue endpoint\<close>

text \<open>
  An environment name that is no member of \<open>Object.prototype\<close> selects the production
  account when it is \<open>prod\<close> and the \<open>kaos\<close> account otherwise, and the endpoint is
  host, account and queue name.
\<close>

lemma object_get_environment:
  assumes "environment \<notin> fst ` set Object_prototype"
  shows "object_get ENVIRONMENT_MAP environment =
           (if environment = ''kaos'' then JStr ''384553929753''
            else if environment = ''prod'' then JStr ''966972755541'' else JUndefined)"
proof -
  from assms have "map_of Object_prototype environment = None"
    by (simp add: map_of_eq_None_iff)
  then show ?thesis
    by (simp add: object_get_def ENVIRONMENT_MAP_def)
qed

lemma constructor_endpoint:
  assumes "appName \<noteq> []" "slice \<noteq> []" "environment \<noteq> []" "queueName \<noteq> []"
    and "environment \<notin> fst ` set Object_prototype"
  shows "\<exists>options.
           QueueService_constructor (JStr appName) (JStr slice) (JStr environment) (JStr queueName) w
             = (Inr \<lparr>url = endpoint (account_id environment) appName slice queueName,
                     poll = None, sqs = options\<rparr>,
                w\<lparr>sqs_clients := sqs_clients w @ [options]\<rparr>)
           \<and> get_prop options ''params''
             = Inr (JObj [(''QueueUrl'', JStr (endpoint (account_id environment) appName slice queueName))])"
proof -
  have kaos: "object_get ENVIRONMENT_MAP ''kaos'' = JStr ''384553929753''"
    by (simp add: object_get_def ENVIRONMENT_MAP_def)
  have params: "\<And>u. object_get [(''region'', JStr ''ap-southeast-2''),
                    (''apiVersion'', JStr ''2012-11-05''),
                    (''params'', JObj [(''QueueUrl'', JStr u)])] ''params''
                  = JObj [(''QueueUrl'', JStr u)]"
    by (simp add: object_get_def)
  show ?thesis
    using assms(1-4)
    by (simp add: QueueService_constructor_def object_get_environment [OF assms(5)] kaos params
        endpoint_def account_id_def Let_def)
qed

text \<open>
  Claim C3. The endpoint is host, account and \<open>appName-slice-queueName\<close>, and every
  environment other than \<open>prod\<close> selects the \<open>kaos\<close> account: so the constructor's
  documentation says, and so the code does for the names covered by
  \<open>constructor_endpoint\<close>. For the environment \<open>constructor\<close> it does not:
  \<open>ENVIRONMENT_MAP[environment]\<close> finds the inherited member, a function, which is
  truthy, so the \<open>kaos\<close> default is skipped and the function's text becomes the account
  part of the URL. The theorem evaluates the constructor there, beside the endpoint the
  claim gives.
\<close>

theorem constructor_inherited_environment:
  "fst (QueueService_constructor (JStr ''appName'') (JStr ''slice'') (JStr ''constructor'') (JStr ''name'') w)
     = Inr \<lparr>url = ''https://sqs.ap-southeast-2.amazonaws.com/function Object() { [native code] }/appName-slice-name'',
            poll = None,
            sqs = JObj [(''region'', JStr ''ap-southeast-2''),
                        (''apiVersion'', JStr ''2012-11-05''),
                        (''params'', JObj [(''QueueUrl'', JStr ''https://sqs.ap-southeast-2.amazonaws.com/function Object() { [native code] }/appName-slice-name'')])]\<rparr>
   \<and> endpoint (account_id ''constructor'') ''appName'' ''slice'' ''name''
     = ''https://sqs.ap-southeast-2.amazonaws.com/384553929753/appName-slice-name''"
  by (simp add: QueueService_constructor_def object_get_def ENVIRONMENT_MAP_def
      Object_prototype_def regional_host_def endpoint_def account_id_def Let_def)

theorem constructor_inherited_environment_witness:
  "fst (QueueService_constructor (JStr ''appName'') (JStr ''slice'') (JStr ''constructor'') (JStr ''name'')
          fresh_world)
     = Inr \<lparr>url = ''https://sqs.ap-southeast-2.amazonaws.com/function Object() { [native code] }/appName-slice-name'',
            poll = None,
            sqs = JObj [(''region'', JStr ''ap-southeast-2''),
                        (''apiVersion'', JStr ''2012-11-05''),
                        (''params'', JObj [(''QueueUrl'', JStr ''https://sqs.ap-southeast-2.amazonaws.com/function Object() { [native code] }/appName-slice-name'')])]\<rparr>"
  using constructor_inherited_environment [of fresh_world]
  by simp

section \<open>Construction with a missing identifier\<close>

text \<open>
  Claim C8. Constructing the queue client with any of the four identifiers empty,
  \<open>null\<close> or \<open>undefined\<close> throws the configuration error, whatever the other three are,
  and leaves the world as it was: no client is built and nothing is sent.
\<close>

theorem constructor_rejects_missing:
  assumes "missing appName \<or> missing slice \<or> missing environment \<or> missing queueName"
  shows "QueueService_constructor appName slice environment queueName w = (Inl mandatory_error, w)"
  using assms by (auto simp: QueueService_constructor_def dest: missing_falsy)

theorem constructor_rejects_missing_witness:
  "missing JNull
   \<and> QueueService_constructor (JStr ''appName'') (JStr ''slice'') (JStr ''environment'') JNull fresh_world
     = (Inl (JError ''Error''
          ''All parameters are mandatory, please provide an appName, slice, environment and queueName''
          []),
        fresh_world)"
  using constructor_rejects_missing [of "JStr ''appName''" "JStr ''slice''" "JStr ''environment''" JNull fresh_world]
  by (simp add: missing_def mandatory_error_def)

section \<open>The composition root\<close>

text \<open>
  Called with no arguments, as \<open>Provider\<close> writes the call, the queue client's
  constructor throws the configuration error.
\<close>

lemma QueueService_constructor_no_arguments:
  "QueueService_constructor JUndefined JUndefined JUndefined JUndefined w = (Inl mandatory_error, w)"
  by (simp add: QueueService_constructor_def)

text \<open>
  Claim C9. The composition root is to instantiate the queue client with no arguments
  and so fail on that client's mandatory-parameter check. The source writes that call,
  but its module never imports \<open>QueueService\<close>: for every bucket name the constructor
  throws a \<open>ReferenceError\<close> on evaluating the name, after building the storage client.
  The queue client's constructor is never entered, and the error is not its
  configuration error. The theorem evaluates the constructor.
\<close>

theorem Provider_constructor_unbound:
  "Provider_constructor bucketName w
     = (Inl (JError ''ReferenceError'' ''QueueService is not defined'' []),
        snd (StorageService_constructor bucketName w))
   \<and> fst (Provider_constructor bucketName w) \<noteq> Inl mandatory_error
   \<and> sqs_clients (snd (Provider_constructor bucketName w)) = sqs_clients w"
  by (simp add: Provider_constructor_def Provider_module_scope_def unbound_def
      StorageService_constructor_def mandatory_error_def Let_def)

theorem Provider_constructor_unbound_witness:
  "Provider_constructor (JStr ''bucket_name'') fresh_world
     = (Inl (JError ''ReferenceError'' ''QueueService is not defined'' []),
        fresh_world\<lparr>s3_clients := [JObj [(''params'', JObj [(''Bucket'', JStr ''bucket_name'')]),
                                           (''signatureVersion'', JStr ''v4''),
                                           (''region'', JStr ''ap-southeast-2'')]]\<rparr>)"
  using Provider_constructor_unbound [of "JStr ''bucket_name''" fresh_world]
  by (simp add: StorageService_constructor_def fresh_world_def Let_def)

section \<open>Deleting\<close>

text \<open>
  Claim C10. \<open>deleteMessage(null)\<close> and \<open>deleteMessage(undefined)\<close> reject without a
  call of the transport (the world is unchanged), and the rejection is the \<open>TypeError\<close>
  of reading \<open>ReceiptHandle\<close>, not the validation message.
\<close>

theorem deleteMessage_null_undefined:
  "deleteMessage E JNull w = (Rejected (TypeError ''ReceiptHandle'' JNull), w)
   \<and> deleteMessage E JUndefined w = (Rejected (TypeError ''ReceiptHandle'' JUndefined), w)
   \<and> TypeError ''ReceiptHandle'' JNull
       = JError ''TypeError''
           (''Cannot read property '' @ [CHR 0x27] @ ''ReceiptHandle'' @ [CHR 0x27] @ '' of null'') []
   \<and> TypeError ''ReceiptHandle'' JUndefined
       = JError ''TypeError''
           (''Cannot read property '' @ [CHR 0x27] @ ''ReceiptHandle'' @ [CHR 0x27] @ '' of undefined'') []
   \<and> TypeError ''ReceiptHandle'' JNull \<noteq> no_receipt_handle
   \<and> TypeError ''ReceiptHandle'' JUndefined \<noteq> no_receipt_handle"
  by (simp add: deleteMessage_def TypeError_def no_receipt_handle_def)

text \<open>
  Claim C4, as stated, fails at \<open>null\<close>: it lacks a receipt token, and the rejection is
  the \<open>TypeError\<close>, not the validation message.
\<close>

theorem deleteMessage_null_counterexample:
  "lacks_receipt_token JNull
   \<and> fst (deleteMessage (scripted [] [] [] [] []) JNull fresh_world)
     = Rejected (JError ''TypeError''
         (''Cannot read property '' @ [CHR 0x27] @ ''ReceiptHandle'' @ [CHR 0x27] @ '' of null'') [])
   \<and> fst (deleteMessage (scripted [] [] [] [] []) JNull fresh_world) \<noteq> Rejected no_receipt_handle"
  by (simp add: lacks_receipt_token_def deleteMessage_def TypeError_def no_receipt_handle_def)

text \<open>
  Claim C4, amended. For every input other than \<open>null\<close> and \<open>undefined\<close> that lacks a
  receipt token, \<open>deleteMessage\<close> rejects with the validation message, which no wrapped
  transport error equals, and the transport is not called (the world is unchanged).
\<close>

theorem deleteMessage_without_token:
  assumes "message \<noteq> JNull" and "message \<noteq> JUndefined" and "lacks_receipt_token message"
  shows "deleteMessage E message w = (Rejected no_receipt_handle, w)
         \<and> no_receipt_handle \<noteq> wrapped err"
proof -
  from lacks_receipt_token_defined [OF assms] obtain handle
    where "get_prop message ''ReceiptHandle'' = Inr handle" and "\<not> truthy handle"
    by blast
  then show ?thesis
    by (simp add: deleteMessage_falsy_handle wrapped_shape)
qed

theorem deleteMessage_without_token_witness:
  "JStr ''test'' \<noteq> JNull \<and> JStr ''test'' \<noteq> JUndefined \<and> lacks_receipt_token (JStr ''test'')
   \<and> deleteMessage (scripted [] [(JStr ''ERR'', JStr ''some_data'')] [] [] []) (JStr ''test'') fresh_world
     = (Rejected (JStr ''message input did not contain a receipt handle''), fresh_world)"
proof -
  have h: "lacks_receipt_token (JStr ''test'')"
    by (simp add: lacks_receipt_token_def object_get_def Object_prototype_def)
  show ?thesis
    using h deleteMessage_without_token [of "JStr ''test''", OF _ _ h,
        of "scripted [] [(JStr ''ERR'', JStr ''some_data'')] [] [] []" fresh_world]
    by (simp add: no_receipt_handle_def)
qed

section \<open>Dequeueing\<close>

text \<open>
  Claim C5, as stated, fails when \<open>receiveMessage\<close> resolves with \<open>null\<close>: nothing
  deletable was received, and \<open>dequeue\<close> rejects with the \<open>TypeError\<close>, not with the
  validation message.
\<close>

theorem dequeue_null_counterexample:
  "receiveMessage (scripted [(JNull, JNull)] [] [] [] []) JUndefined fresh_world
     = (Resolved JNull, fresh_world\<lparr>receive_calls := [receive_params (JNum 1)]\<rparr>)
   \<and> lacks_receipt_token JNull
   \<and> fst (dequeue (scripted [(JNull, JNull)] [] [] [] []) fresh_world)
     = Rejected (JError ''TypeError''
         (''Cannot read property '' @ [CHR 0x27] @ ''ReceiptHandle'' @ [CHR 0x27] @ '' of null'') [])
   \<and> fst (dequeue (scripted [(JNull, JNull)] [] [] [] []) fresh_world) \<noteq> Rejected no_receipt_handle"
  by (simp add: dequeue_def receiveMessage_def deleteMessage_def scripted_def script_def
      fresh_world_def lacks_receipt_token_def TypeError_def no_receipt_handle_def Let_def)

text \<open>
  Claim C5, amended. When the transport answers the receive call (for one message)
  with \<open>data\<close>, \<open>dequeue\<close> settles as \<open>deleteMessage data\<close> does, resolving with \<open>data\<close>
  itself where that resolves. With a receipt token in \<open>data\<close> and a successful delete,
  the transport has been asked to receive one message and to delete by that token, and
  \<open>dequeue\<close> resolves with \<open>data\<close>. When \<open>data\<close> is neither \<open>null\<close> nor \<open>undefined\<close> and
  lacks a receipt token, \<open>dequeue\<close> rejects with the validation message and no delete
  call is made. When \<open>data\<close> is \<open>null\<close> or \<open>undefined\<close>, \<open>dequeue\<close> rejects with the
  \<open>TypeError\<close> of reading \<open>ReceiptHandle\<close>, again without a delete call.
\<close>

theorem dequeue_composition:
  assumes "receive_reply E (length (receive_calls w)) (receive_params (JNum 1)) = (err, data)"
    and "\<not> truthy err"
  shows "dequeue E w =
           (case deleteMessage E data (w\<lparr>receive_calls := receive_calls w @ [receive_params (JNum 1)]\<rparr>) of
              (Rejected exc, w2) \<Rightarrow> (Rejected exc, w2)
            | (Resolved ack, w2) \<Rightarrow> (Resolved data, w2))
       \<and> (get_prop data ''ReceiptHandle'' = Inr handle \<and> truthy handle
            \<and> delete_reply E (length (delete_calls w)) (JObj [(''ReceiptHandle'', handle)]) = (derr, ack)
            \<and> \<not> truthy derr
            \<longrightarrow> dequeue E w =
                  (Resolved data,
                   w\<lparr>receive_calls := receive_calls w @ [receive_params (JNum 1)],
                     delete_calls := delete_calls w @ [JObj [(''ReceiptHandle'', handle)]]\<rparr>))
       \<and> (data \<noteq> JNull \<and> data \<noteq> JUndefined \<and> lacks_receipt_token data
            \<longrightarrow> dequeue E w =
                  (Rejected no_receipt_handle,
                   w\<lparr>receive_calls := receive_calls w @ [receive_params (JNum 1)]\<rparr>))
       \<and> (data = JNull \<or> data = JUndefined
            \<longrightarrow> dequeue E w =
                  (Rejected (TypeError ''ReceiptHandle'' data),
                   w\<lparr>receive_calls := receive_calls w @ [receive_params (JNum 1)]\<rparr>))"
proof -
  let ?w1 = "w\<lparr>receive_calls := receive_calls w @ [receive_params (JNum 1)]\<rparr>"
  have recv: "receiveMessage E JUndefined w = (Resolved data, ?w1)"
    using assms by (simp add: receiveMessage_reply)
  have first: "dequeue E w =
           (case deleteMessage E data ?w1 of
              (Rejected exc, w2) \<Rightarrow> (Rejected exc, w2)
            | (Resolved ack, w2) \<Rightarrow> (Resolved data, w2))"
    by (simp add: dequeue_def recv)
  have second: "dequeue E w =
          (Resolved data, ?w1\<lparr>delete_calls := delete_calls w @ [JObj [(''ReceiptHandle'', handle)]]\<rparr>)"
    if "get_prop data ''ReceiptHandle'' = Inr handle" "truthy handle"
      "delete_reply E (length (delete_calls w)) (JObj [(''ReceiptHandle'', handle)]) = (derr, ack)"
      "\<not> truthy derr"
  proof -
    have "delete_reply E (length (delete_calls ?w1)) (JObj [(''ReceiptHandle'', handle)]) = (derr, ack)"
      using that(3) by simp
    from deleteMessage_truthy_handle [OF that(1,2) this] that(4) show ?thesis
      by (simp add: first)
  qed
  have third: "dequeue E w = (Rejected no_receipt_handle, ?w1)"
    if "data \<noteq> JNull" "data \<noteq> JUndefined" "lacks_receipt_token data"
  proof -
    from lacks_receipt_token_defined [OF that] obtain h
      where "get_prop data ''ReceiptHandle'' = Inr h" and "\<not> truthy h"
      by blast
    then show ?thesis
      by (simp add: first deleteMessage_falsy_handle)
  qed
  have fourth: "dequeue E w = (Rejected (TypeError ''ReceiptHandle'' data), ?w1)"
    if "data = JNull \<or> data = JUndefined"
    using that by (auto simp: first deleteMessage_def)
  from first second third fourth show ?thesis
    by blast
qed

theorem dequeue_composition_witness:
  "dequeue (scripted [(JBool False, JObj [(''ReceiptHandle'', JNum 123)])] [(JBool False, JStr ''deleted'')] [] [] [])
     fresh_world
   = (Resolved (JObj [(''ReceiptHandle'', JNum 123)]),
      fresh_world\<lparr>receive_calls := [receive_params (JNum 1)],
                   delete_calls := [JObj [(''ReceiptHandle'', JNum 123)]]\<rparr>)
   \<and> dequeue (scripted [(JNull, JObj [])] [] [] [] []) fresh_world
   = (Rejected (JStr ''message input did not contain a receipt handle''),
      fresh_world\<lparr>receive_calls := [receive_params (JNum 1)]\<rparr>)
   \<and> dequeue (scripted [(JNull, JUndefined)] [] [] [] []) fresh_world
   = (Rejected (JError ''TypeError''
        (''Cannot read property '' @ [CHR 0x27] @ ''ReceiptHandle'' @ [CHR 0x27] @ '' of undefined'') []),
      fresh_world\<lparr>receive_calls := [receive_params (JNum 1)]\<rparr>)"
  using
    dequeue_composition [of "scripted [(JBool False, JObj [(''ReceiptHandle'', JNum 123)])] [(JBool False, JStr ''deleted'')] [] [] []"
      fresh_world "JBool False" "JObj [(''ReceiptHandle'', JNum 123)]" "JNum 123" "JBool False" "JStr ''deleted''"]
    dequeue_composition [of "scripted [(JNull, JObj [])] [] [] [] []" fresh_world JNull "JObj []"]
    dequeue_composition [of "scripted [(JNull, JUndefined)] [] [] [] []" fresh_world JNull JUndefined]
  by (simp add: scripted_def script_def fresh_world_def object_get_def Object_prototype_def
      lacks_receipt_token_def no_receipt_handle_def deleteMessage_def TypeError_def Let_def)

section \<open>Polling\<close>

text \<open>
  Claim C7. \<open>startPolling\<close> raises the interval to at least 20 seconds:
  \<open>startPolling(5)\<close> installs a timer of 20000 milliseconds, \<open>startPolling(30)\<close> one of
  30000, and in general one of \<open>max n 20\<close> seconds, whose handle is kept in \<open>poll\<close>.
\<close>

theorem startPolling_interval:
  "timers (snd (snd (startPolling this 5 w))) = timers w @ [(20000, emitters w)]
   \<and> timers (snd (snd (startPolling this 30 w))) = timers w @ [(30000, emitters w)]
   \<and> timers (snd (snd (startPolling this n w))) = timers w @ [(max n 20 * 1000, emitters w)]
   \<and> 20000 \<le> max n 20 * 1000
   \<and> poll (fst (snd (startPolling this n w))) = Some (length (timers w))"
  by (simp add: startPolling_def Let_def)

text \<open>
  What one tick emits, by the answer \<open>(err, response)\<close> of the transport to its receive
  call (for ten messages).
  \<^item> If the call succeeds and \<open>response.Messages\<close> is truthy, exactly one \<open>message\<close>
    event is emitted, carrying the whole response; it is the only event when no listener
    throws.
  \<^item> If the call succeeds and \<open>response.Messages\<close> is absent or otherwise falsy, no
    event is emitted.
  \<^item> If the call succeeds with \<open>null\<close> or \<open>undefined\<close>, reading \<open>Messages\<close> throws
    and exactly one \<open>error\<close> event carries what was thrown.
  \<^item> If the call fails, exactly one \<open>error\<close> event is emitted, carrying the rejection of
    \<open>receiveMessage\<close>, the wrapped transport error.
  The callback itself only builds the promise chain; the chain fulfils in each case,
  provided \<open>emit\<close> does not throw.
\<close>

lemma poll_tick_events:
  assumes "receive_reply E (length (receive_calls w)) (receive_params (JNum 10)) = (err, response)"
  shows "(\<not> truthy err \<and> get_prop response ''Messages'' = Inr ms \<and> truthy ms
            \<longrightarrow> named ''message'' (new_events w (snd (poll_tick E em w))) = [(em, ''message'', response)]
               \<and> (emit_throws E em ''message'' response = None
                    \<longrightarrow> new_events w (snd (poll_tick E em w)) = [(em, ''message'', response)]
                       \<and> fst (poll_tick E em w) = Resolved JUndefined))
       \<and> (\<not> truthy err \<and> get_prop response ''Messages'' = Inr ms \<and> \<not> truthy ms
            \<longrightarrow> new_events w (snd (poll_tick E em w)) = []
               \<and> fst (poll_tick E em w) = Resolved JUndefined)
       \<and> (\<not> truthy err \<and> get_prop response ''Messages'' = Inl exc
            \<longrightarrow> new_events w (snd (poll_tick E em w)) = [(em, ''error'', exc)]
               \<and> (emit_throws E em ''error'' exc = None
                    \<longrightarrow> fst (poll_tick E em w) = Resolved JUndefined))
       \<and> (truthy err
            \<longrightarrow> new_events w (snd (poll_tick E em w)) = [(em, ''error'', wrapped err)]
               \<and> (emit_throws E em ''error'' (wrapped err) = None
                    \<longrightarrow> fst (poll_tick E em w) = Resolved JUndefined))"
proof -
  let ?w1 = "w\<lparr>receive_calls := receive_calls w @ [receive_params (JNum 10)]\<rparr>"
  have recv: "receiveMessage E (JNum 10) w =
                ((if truthy err then Rejected (wrapped err) else Resolved response), ?w1)"
    using receiveMessage_reply [of E w "JNum 10" err response] assms by simp
  have failed: "poll_tick E em w = on_rejected E em (wrapped err) ?w1" if "truthy err"
    using that by (simp add: poll_tick_def recv)
  have thrown: "poll_tick E em w = on_rejected E em exc ?w1"
    if "\<not> truthy err" "get_prop response ''Messages'' = Inl exc"
    using that by (simp add: poll_tick_def recv)
  have quiet: "poll_tick E em w = (Resolved JUndefined, ?w1)"
    if "\<not> truthy err" "get_prop response ''Messages'' = Inr ms" "\<not> truthy ms"
    using that by (simp add: poll_tick_def recv)
  have heard: "poll_tick E em w =
      (case emit_throws E em ''message'' response of
         None \<Rightarrow> (Resolved JUndefined, ?w1\<lparr>emitted := emitted w @ [(em, ''message'', response)]\<rparr>)
       | Some x \<Rightarrow>
           ((case emit_throws E em ''error'' x of None \<Rightarrow> Resolved JUndefined | Some x' \<Rightarrow> Rejected x'),
            ?w1\<lparr>emitted := emitted w @ [(em, ''message'', response), (em, ''error'', x)]\<rparr>))"
    if "\<not> truthy err" "get_prop response ''Messages'' = Inr ms" "truthy ms"
    using that by (simp add: poll_tick_def recv emit_emitted on_rejected_events split: option.split)
  show ?thesis
  proof (intro conjI impI)
    assume a: "\<not> truthy err \<and> get_prop response ''Messages'' = Inr ms \<and> truthy ms"
    then show "named ''message'' (new_events w (snd (poll_tick E em w))) = [(em, ''message'', response)]"
      using heard by (simp add: named_def split: option.split)
    assume "emit_throws E em ''message'' response = None"
    with a heard show "new_events w (snd (poll_tick E em w)) = [(em, ''message'', response)]"
      and "fst (poll_tick E em w) = Resolved JUndefined"
      by simp_all
  next
    assume a: "\<not> truthy err \<and> get_prop response ''Messages'' = Inr ms \<and> \<not> truthy ms"
    with quiet show "new_events w (snd (poll_tick E em w)) = []"
      and "fst (poll_tick E em w) = Resolved JUndefined"
      by (simp_all add: new_events_def)
  next
    assume a: "\<not> truthy err \<and> get_prop response ''Messages'' = Inl exc"
    with thrown show "new_events w (snd (poll_tick E em w)) = [(em, ''error'', exc)]"
      by (simp add: on_rejected_events)
    assume "emit_throws E em ''error'' exc = None"
    with a thrown show "fst (poll_tick E em w) = Resolved JUndefined"
      by (simp add: on_rejected_events)
  next
    assume a: "truthy err"
    with failed show "new_events w (snd (poll_tick E em w)) = [(em, ''error'', wrapped err)]"
      by (simp add: on_rejected_events)
    assume "emit_throws E em ''error'' (wrapped err) = None"
    with a failed show "fst (poll_tick E em w) = Resolved JUndefined"
      by (simp add: on_rejected_events)
  qed
qed

text \<open>
  Claim C2. A tick whose receive call resolves with messages emits exactly one
  \<open>message\<close> event carrying the response, one whose response has an empty or absent
  \<open>Messages\<close> field emits nothing, and one whose receive call fails emits exactly one
  \<open>error\<close> event. The comment in the callback says the same (the check is for zero
  messages), and the code does so for an absent field, for a non-empty array and for a
  failure, by \<open>poll_tick_events\<close>. For the empty array it does not: the test is for
  truthiness, an array is truthy, and the tick emits a \<open>message\<close> event carrying a
  response without messages. The theorem evaluates the tick there.
\<close>

theorem poll_tick_empty_messages:
  "get_prop (JObj [(''Messages'', JArr [])]) ''Messages'' = Inr (JArr [])
   \<and> poll_tick (scripted [(JNull, JObj [(''Messages'', JArr [])])] [] [] [] []) 0 fresh_world
     = (Resolved JUndefined,
        fresh_world\<lparr>receive_calls := [receive_params (JNum 10)],
                     emitted := [(0, ''message'', JObj [(''Messages'', JArr [])])]\<rparr>)"
  by (simp add: poll_tick_def receiveMessage_def emit_def scripted_def script_def fresh_world_def
      object_get_def Let_def)

section \<open>Unique keys and attachments\<close>

text \<open>
  Claim C1. For every prefix: if the probes of the first three candidate keys answer
  found, found, notFound, then \<open>getUniqueKey\<close> resolves with the prefix followed by the
  third identifier, having drawn three identifiers and made exactly those three probes;
  and if the first probe answers with an error other than notFound, it rejects with that
  very error after that one probe.
\<close>

theorem getUniqueKey_probes:
  "(found (head_reply E (length (head_calls w)) (key_params (candidate E prefix (uuid_calls w))))
    \<and> found (head_reply E (length (head_calls w) + 1) (key_params (candidate E prefix (uuid_calls w + 1))))
    \<and> notFound (head_reply E (length (head_calls w) + 2) (key_params (candidate E prefix (uuid_calls w + 2))))
    \<longrightarrow> getUniqueKey E prefix w =
          Some (Resolved (JStr (to_string prefix @ uuid_v1 E (uuid_calls w + 2))),
                w\<lparr>uuid_calls := uuid_calls w + 3,
                  head_calls := head_calls w @
                    [key_params (candidate E prefix (uuid_calls w)),
                     key_params (candidate E prefix (uuid_calls w + 1)),
                     key_params (candidate E prefix (uuid_calls w + 2))]\<rparr>))
   \<and> (other_error (head_reply E (length (head_calls w)) (key_params (candidate E prefix (uuid_calls w))))
      \<longrightarrow> getUniqueKey E prefix w =
            Some (Rejected (head_reply E (length (head_calls w)) (key_params (candidate E prefix (uuid_calls w)))),
                  w\<lparr>uuid_calls := uuid_calls w + 1,
                    head_calls := head_calls w @ [key_params (candidate E prefix (uuid_calls w))]\<rparr>))"
proof (intro conjI impI)
  let ?k1 = "candidate E prefix (uuid_calls w)"
  let ?k2 = "candidate E prefix (uuid_calls w + 1)"
  let ?k3 = "candidate E prefix (uuid_calls w + 2)"
  assume a: "found (head_reply E (length (head_calls w)) (key_params ?k1))
    \<and> found (head_reply E (length (head_calls w) + 1) (key_params ?k2))
    \<and> notFound (head_reply E (length (head_calls w) + 2) (key_params ?k3))"
  have 1: "getUniqueKey E prefix w = getUniqueKey E prefix (probed w ?k1)"
    using a by (simp add: getUniqueKey_found)
  have 2: "getUniqueKey E prefix (probed w ?k1) = getUniqueKey E prefix (probed (probed w ?k1) ?k2)"
    using a getUniqueKey_found [of E "probed w ?k1" prefix] by simp
  have 3: "getUniqueKey E prefix (probed (probed w ?k1) ?k2)
             = Some (Resolved (JStr ?k3), probed (probed (probed w ?k1) ?k2) ?k3)"
    using a getUniqueKey_notFound [of E "probed (probed w ?k1) ?k2" prefix]
    by (simp add: numeral_2_eq_2)
  have 4: "probed (probed (probed w ?k1) ?k2) ?k3
             = w\<lparr>uuid_calls := uuid_calls w + 3,
                 head_calls := head_calls w @ [key_params ?k1, key_params ?k2, key_params ?k3]\<rparr>"
    by (simp add: probed_def)
  show "getUniqueKey E prefix w =
          Some (Resolved (JStr (to_string prefix @ uuid_v1 E (uuid_calls w + 2))),
                w\<lparr>uuid_calls := uuid_calls w + 3,
                  head_calls := head_calls w @ [key_params ?k1, key_params ?k2, key_params ?k3]\<rparr>)"
    using 1 2 3 4 by (simp add: candidate_def)
next
  assume "other_error (head_reply E (length (head_calls w)) (key_params (candidate E prefix (uuid_calls w))))"
  then show "getUniqueKey E prefix w =
            Some (Rejected (head_reply E (length (head_calls w)) (key_params (candidate E prefix (uuid_calls w)))),
                  w\<lparr>uuid_calls := uuid_calls w + 1,
                    head_calls := head_calls w @ [key_params (candidate E prefix (uuid_calls w))]\<rparr>)"
    by (simp add: getUniqueKey_other_error probed_def)
qed

theorem getUniqueKey_probes_witness:
  "getUniqueKey
     (scripted [] [] [JNull, JNull, JObj [(''code'', JStr ''NotFound'')]] []
        [''some-guid-x'', ''some-guid-y'', ''some-guid-z''])
     (JStr ''prefix'') fresh_world
   = Some (Resolved (JStr ''prefixsome-guid-z''),
           fresh_world\<lparr>uuid_calls := 3,
                        head_calls := [JObj [(''Key'', JStr ''prefixsome-guid-x'')],
                                       JObj [(''Key'', JStr ''prefixsome-guid-y'')],
                                       JObj [(''Key'', JStr ''prefixsome-guid-z'')]]\<rparr>)
   \<and> getUniqueKey (scripted [] [] [JObj [(''code'', JStr ''BadError'')]] [] []) (JStr ''prefix'') fresh_world
   = Some (Rejected (JObj [(''code'', JStr ''BadError'')]),
           fresh_world\<lparr>uuid_calls := 1, head_calls := [JObj [(''Key'', JStr ''prefixsome-guid'')]]\<rparr>)"
  using
    getUniqueKey_probes [of
      "scripted [] [] [JNull, JNull, JObj [(''code'', JStr ''NotFound'')]] []
        [''some-guid-x'', ''some-guid-y'', ''some-guid-z'']" fresh_world "JStr ''prefix''"]
    getUniqueKey_probes [of
      "scripted [] [] [JObj [(''code'', JStr ''BadError'')]] [] []" fresh_world "JStr ''prefix''"]
  by (simp add: scripted_def script_def fresh_world_def found_def notFound_def other_error_def
      candidate_def key_params_def object_get_def)

text \<open>
  Claim C6. For every prefix and attachments: when \<open>putAttachment\<close> resolves, it
  resolves with the key that \<open>getUniqueKey\<close> produced, and that key is the \<open>Key\<close> of the
  one write call made, which succeeded; when the key is there, the attachments serialise
  and the write succeeds, \<open>putAttachment\<close> does resolve with that key; and when the
  write fails, \<open>putAttachment\<close> rejects with the failure value itself (after logging
  it), so no key is returned.
\<close>

theorem putAttachment_key:
  "(putAttachment E prefix attachments w = Some (Resolved v, w')
      \<longrightarrow> (\<exists>key body w1.
             getUniqueKey E prefix w = Some (Resolved (JStr key), w1)
             \<and> JSON_stringify E attachments = Inr body
             \<and> v = JStr key
             \<and> put_calls w' = put_calls w @ [JObj [(''Key'', JStr key), (''Body'', body)]]
             \<and> \<not> truthy (put_reply E (length (put_calls w)) (JObj [(''Key'', JStr key), (''Body'', body)]))))
   \<and> (getUniqueKey E prefix w = Some (Resolved key, w1)
       \<and> JSON_stringify E attachments = Inr body
       \<and> \<not> truthy (put_reply E (length (put_calls w1)) (JObj [(''Key'', key), (''Body'', body)]))
      \<longrightarrow> putAttachment E prefix attachments w =
            Some (Resolved key, w1\<lparr>put_calls := put_calls w1 @ [JObj [(''Key'', key), (''Body'', body)]]\<rparr>))
   \<and> (getUniqueKey E prefix w = Some (Resolved key, w1)
       \<and> JSON_stringify E attachments = Inr body
       \<and> put_reply E (length (put_calls w1)) (JObj [(''Key'', key), (''Body'', body)]) = err
       \<and> truthy err
      \<longrightarrow> putAttachment E prefix attachments w =
            Some (Rejected err,
                  console_log err (w1\<lparr>put_calls := put_calls w1 @ [JObj [(''Key'', key), (''Body'', body)]]\<rparr>)))"
proof (intro conjI impI)
  assume a: "putAttachment E prefix attachments w = Some (Resolved v, w')"
  then obtain r w1 where g: "getUniqueKey E prefix w = Some (r, w1)"
    by (cases "getUniqueKey E prefix w") (auto simp: putAttachment_def)
  from a g obtain k where r: "r = Resolved k"
    by (cases r) (auto simp: putAttachment_def)
  from getUniqueKey_result [OF g] r obtain key where k: "k = JStr key" and pc: "put_calls w1 = put_calls w"
    by auto
  from a g r obtain body where b: "JSON_stringify E attachments = Inr body"
    by (cases "JSON_stringify E attachments") (auto simp: putAttachment_def)
  let ?data = "JObj [(''Key'', JStr key), (''Body'', body)]"
  from a g r k b have "\<not> truthy (put_reply E (length (put_calls w1)) ?data)"
    and "v = JStr key" and "w' = w1\<lparr>put_calls := put_calls w1 @ [?data]\<rparr>"
    by (auto simp: putAttachment_def putObjectPromise_reply split: if_splits)
  with g r k b pc
  show "\<exists>key body w1.
             getUniqueKey E prefix w = Some (Resolved (JStr key), w1)
             \<and> JSON_stringify E attachments = Inr body
             \<and> v = JStr key
             \<and> put_calls w' = put_calls w @ [JObj [(''Key'', JStr key), (''Body'', body)]]
             \<and> \<not> truthy (put_reply E (length (put_calls w)) (JObj [(''Key'', JStr key), (''Body'', body)]))"
    by auto
next
  assume "getUniqueKey E prefix w = Some (Resolved key, w1)
       \<and> JSON_stringify E attachments = Inr body
       \<and> \<not> truthy (put_reply E (length (put_calls w1)) (JObj [(''Key'', key), (''Body'', body)]))"
  then show "putAttachment E prefix attachments w =
            Some (Resolved key, w1\<lparr>put_calls := put_calls w1 @ [JObj [(''Key'', key), (''Body'', body)]]\<rparr>)"
    by (auto simp: putAttachment_def putObjectPromise_reply)
next
  assume "getUniqueKey E prefix w = Some (Resolved key, w1)
       \<and> JSON_stringify E attachments = Inr body
       \<and> put_reply E (length (put_calls w1)) (JObj [(''Key'', key), (''Body'', body)]) = err
       \<and> truthy err"
  then show "putAttachment E prefix attachments w =
            Some (Rejected err,
                  console_log err (w1\<lparr>put_calls := put_calls w1 @ [JObj [(''Key'', key), (''Body'', body)]]\<rparr>))"
    by (auto simp: putAttachment_def putObjectPromise_reply)
qed

theorem putAttachment_key_witness:
  "putAttachment (scripted [] [] [JObj [(''code'', JStr ''NotFound'')]] [JNull] [''some-guid''])
     (JStr ''prefix'') (JArr []) fresh_world
   = Some (Resolved (JStr ''prefixsome-guid''),
           fresh_world\<lparr>uuid_calls := 1,
                        head_calls := [JObj [(''Key'', JStr ''prefixsome-guid'')]],
                        put_calls := [JObj [(''Key'', JStr ''prefixsome-guid''), (''Body'', JStr ''[]'')]]\<rparr>)
   \<and> putAttachment (scripted [] [] [JObj [(''code'', JStr ''NotFound'')]] [JStr ''exterminate...exterminate''] [''some-guid''])
     (JStr ''prefix'') (JArr []) fresh_world
   = Some (Rejected (JStr ''exterminate...exterminate''),
           fresh_world\<lparr>uuid_calls := 1,
                        head_calls := [JObj [(''Key'', JStr ''prefixsome-guid'')]],
                        put_calls := [JObj [(''Key'', JStr ''prefixsome-guid''), (''Body'', JStr ''[]'')]],
                        console := [(''An error was thrown putting object on S3'', JStr ''exterminate...exterminate'')]\<rparr>)"
  using
    putAttachment_key [of "scripted [] [] [JObj [(''code'', JStr ''NotFound'')]] [JNull] [''some-guid'']"
      "JStr ''prefix''" "JArr []" fresh_world "JStr ''prefixsome-guid''"
      "fresh_world\<lparr>uuid_calls := 1,
                        head_calls := [JObj [(''Key'', JStr ''prefixsome-guid'')]],
                        put_calls := [JObj [(''Key'', JStr ''prefixsome-guid''), (''Body'', JStr ''[]'')]]\<rparr>"
      "JStr ''prefixsome-guid''"
      "fresh_world\<lparr>uuid_calls := 1, head_calls := [JObj [(''Key'', JStr ''prefixsome-guid'')]]\<rparr>"
      "JStr ''[]''"]
    putAttachment_key [of "scripted [] [] [JObj [(''code'', JStr ''NotFound'')]] [JStr ''exterminate...exterminate''] [''some-guid'']"
      "JStr ''prefix''" "JArr []" fresh_world _ _ "JStr ''prefixsome-guid''"
      "fresh_world\<lparr>uuid_calls := 1, head_calls := [JObj [(''Key'', JStr ''prefixsome-guid'')]]\<rparr>"
      "JStr ''[]''" "JStr ''exterminate...exterminate''"]
  by (simp add: putAttachment_def putObjectPromise_def getUniqueKey.simps console_log_def
      scripted_def script_def fresh_world_def key_params_def object_get_def Let_def)

end
